theory Spec2Isabelle
  imports Complex_Main
begin

section \<open>JavaScript values\<close>

text \<open>
  A number: NaN, an infinity, or a finite number.
\<close>

datatype number = NaN | NegInf | Fin real | PosInf

text \<open>
  The values that occur as claims of a payload and as operands of the comparison guard:
  the JavaScript primitives and references to objects (plain objects, arrays, functions),
  of which only the identity is known. \<open>JNum n\<close> is the integer \<open>n\<close>, the form of
  every timestamp in milliseconds; \<open>JNumber x\<close> is any number. A payload is an object
  whose own properties hold such values; payload objects live in a store and are
  referred to by address.
\<close>

datatype jsval =
    JUndefined | JNull | JBool bool | JNum int | JNumber number | JStr string | JObject nat

type_synonym addr = nat

type_synonym obj = "string \<rightharpoonup> jsval"

text \<open>
  What the JavaScript runtime provides and the program does not define: the conversion of
  a string to a number (StringToNumber), the order of strings by code units, the
  conversion of an object to a primitive, which for plain objects, arrays and functions
  is a string, and the properties that every plain object inherits from
  \<open>Object.prototype\<close> (such as \<open>constructor\<close>). They are parameters of the model.
\<close>

record runtime =
  string_to_number :: "string \<Rightarrow> number"
  string_lt :: "string \<Rightarrow> string \<Rightarrow> bool"
  to_primitive :: "nat \<Rightarrow> string"
  object_prototype :: "string \<rightharpoonup> jsval"

text \<open>
  Reading a property, \<open>o[k]\<close>, of a plain object: its own property, else the inherited
  one, else \<open>undefined\<close>.
\<close>

definition get_prop :: "runtime \<Rightarrow> obj \<Rightarrow> string \<Rightarrow> jsval" where
  "get_prop rt ob k =
     (case ob k of
        Some v \<Rightarrow> v
      | None \<Rightarrow> (case object_prototype rt k of None \<Rightarrow> JUndefined | Some v \<Rightarrow> v))"

text \<open>ToBoolean, as used by \<open>&&\<close>, \<open>||\<close>, \<open>!\<close> and \<open>if\<close>.\<close>

fun truthy :: "jsval \<Rightarrow> bool" where
  "truthy JUndefined = False"
| "truthy JNull = False"
| "truthy (JBool b) = b"
| "truthy (JNum n) = (n \<noteq> 0)"
| "truthy (JNumber x) = (x \<noteq> NaN \<and> x \<noteq> Fin 0)"
| "truthy (JStr s) = (s \<noteq> [])"
| "truthy (JObject r) = True"

subsection \<open>Conversions\<close>

text \<open>ToPrimitive: an object becomes the string the runtime gives for it.\<close>

fun prim_of :: "runtime \<Rightarrow> jsval \<Rightarrow> jsval" where
  "prim_of rt (JObject r) = JStr (to_primitive rt r)"
| "prim_of rt v = v"

text \<open>ToNumber of a primitive.\<close>

fun to_number :: "runtime \<Rightarrow> jsval \<Rightarrow> number" where
  "to_number rt JUndefined = NaN"
| "to_number rt JNull = Fin 0"
| "to_number rt (JBool b) = Fin (if b then 1 else 0)"
| "to_number rt (JNum n) = Fin (of_int n)"
| "to_number rt (JNumber x) = x"
| "to_number rt (JStr s) = string_to_number rt s"
| "to_number rt (JObject r) = string_to_number rt (to_primitive rt r)"

text \<open>Equality and order of numbers: NaN equals nothing and compares with nothing.\<close>

definition num_eq :: "number \<Rightarrow> number \<Rightarrow> bool" where
  "num_eq a b = (a \<noteq> NaN \<and> a = b)"

fun num_lt :: "number \<Rightarrow> number \<Rightarrow> bool option" where
  "num_lt NaN b = None"
| "num_lt a NaN = None"
| "num_lt (Fin x) (Fin y) = Some (x < y)"
| "num_lt PosInf b = Some False"
| "num_lt a NegInf = Some False"
| "num_lt NegInf b = Some True"
| "num_lt a PosInf = Some True"

subsection \<open>The comparison operators\<close>

text \<open>Strict equality \<open>===\<close>: same type and same value; two numbers as numbers, two
  objects when they are the same object.\<close>

definition num_of :: "jsval \<Rightarrow> number option" where
  "num_of v = (case v of JNum n \<Rightarrow> Some (Fin (of_int n)) | JNumber x \<Rightarrow> Some x | _ \<Rightarrow> None)"

definition strict_eq :: "jsval \<Rightarrow> jsval \<Rightarrow> bool" where
  "strict_eq x y =
     (case (num_of x, num_of y) of
        (Some a, Some b) \<Rightarrow> num_eq a b
      | (None, None) \<Rightarrow> x = y
      | _ \<Rightarrow> False)"

text \<open>
  Loose equality \<open>==\<close>: \<open>null\<close> and \<open>undefined\<close> equal each other and nothing else,
  two objects are equal when they are the same object, two strings when they are the
  same string; in every other case an object is first converted to a primitive and the
  operands are compared as numbers.
\<close>

definition nullish :: "jsval \<Rightarrow> bool" where
  "nullish v = (v = JUndefined \<or> v = JNull)"

definition is_str :: "jsval \<Rightarrow> bool" where
  "is_str v = (case v of JStr s \<Rightarrow> True | _ \<Rightarrow> False)"

definition is_object :: "jsval \<Rightarrow> bool" where
  "is_object v = (case v of JObject r \<Rightarrow> True | _ \<Rightarrow> False)"

definition loose_eq :: "runtime \<Rightarrow> jsval \<Rightarrow> jsval \<Rightarrow> bool" where
  "loose_eq rt x y =
     (if nullish x \<or> nullish y then nullish x \<and> nullish y
      else if is_object x \<and> is_object y then x = y
      else if is_str (prim_of rt x) \<and> is_str (prim_of rt y) then prim_of rt x = prim_of rt y
      else num_eq (to_number rt (prim_of rt x)) (to_number rt (prim_of rt y)))"

text \<open>
  The abstract relational comparison \<open>x < y\<close>: \<open>None\<close> is its result \<open>undefined\<close>
  (an operand converted to NaN). Two strings are compared as strings.
\<close>

definition rel_lt :: "runtime \<Rightarrow> jsval \<Rightarrow> jsval \<Rightarrow> bool option" where
  "rel_lt rt x y =
     (case (prim_of rt x, prim_of rt y) of
        (JStr s, JStr t) \<Rightarrow> Some (string_lt rt s t)
      | (px, py) \<Rightarrow> num_lt (to_number rt px) (to_number rt py))"

definition js_lt :: "runtime \<Rightarrow> jsval \<Rightarrow> jsval \<Rightarrow> bool" where
  "js_lt rt x y = (rel_lt rt x y = Some True)"

definition js_gt :: "runtime \<Rightarrow> jsval \<Rightarrow> jsval \<Rightarrow> bool" where
  "js_gt rt x y = (rel_lt rt y x = Some True)"

definition js_le :: "runtime \<Rightarrow> jsval \<Rightarrow> jsval \<Rightarrow> bool" where
  "js_le rt x y = (rel_lt rt y x = Some False)"

definition js_ge :: "runtime \<Rightarrow> jsval \<Rightarrow> jsval \<Rightarrow> bool" where
  "js_ge rt x y = (rel_lt rt x y = Some False)"

subsection \<open>Exceptions\<close>

text \<open>
  An exception: its constructor with the message, for a \<open>JWTExpressError\<close> also the
  properties assigned to it after construction, in order. \<open>LibraryError\<close> is an error
  that a library throws, known by its \<open>name\<close>.
\<close>

datatype exn =
    ReferenceError string
  | TypeError string
  | JWTExpressError string "(string \<times> jsval) list"
  | LibraryError string

fun exn_name :: "exn \<Rightarrow> string" where
  "exn_name (ReferenceError m) = ''ReferenceError''"
| "exn_name (TypeError m) = ''TypeError''"
| "exn_name (JWTExpressError m ps) = ''JWTExpressError''"
| "exn_name (LibraryError n) = n"

section \<open>The token class\<close>

text \<open>
  A \<open>JWT\<close> object has the fields \<open>token\<close>, \<open>payload\<close>, \<open>secret\<close>, \<open>options\<close>,
  \<open>valid\<close>, \<open>expired\<close> and \<open>stale\<close>. The payload is a reference to an object of the
  store, so that aliasing with the caller's object is visible. The \<open>options\<close> field of
  every instance refers to the one options object of the module; it is passed to each
  method as the argument \<open>opts\<close> instead of being stored in the record.
\<close>

record jwt =
  token :: string
  payload :: addr
  secret :: string
  valid :: bool
  expired :: bool
  stale :: bool

text \<open>The methods of the class, as entries of the call log.\<close>

datatype call = Resign | Revoke | Sign | Store | Verify

text \<open>
  The world outside a token: the store of payload objects with its next free address, the
  clock that \<open>Date.now()\<close> reads, and a log of the calls of methods made so far.
\<close>

record world =
  heap :: "addr \<Rightarrow> obj"
  nxt :: addr
  time :: int
  calls :: "call list"

definition alloc :: "obj \<Rightarrow> world \<Rightarrow> addr \<times> world" where
  "alloc ob w = (nxt w, w\<lparr>heap := (heap w)(nxt w := ob), nxt := Suc (nxt w)\<rparr>)"

definition log_call :: "call \<Rightarrow> world \<Rightarrow> world" where
  "log_call m w = w\<lparr>calls := calls w @ [m]\<rparr>"

text \<open>Option objects that are only passed through (to the codec, to the cookie call).\<close>

type_synonym popts = "(string \<times> jsval) list"

text \<open>
  The options of the module, after \<open>init\<close> has merged the defaults in. The function
  under \<open>verify\<close> reads the world and the token and returns a boolean; the function
  under \<open>revoke\<close> returns nothing and acts on the world.
\<close>

record options =
  cookie :: string
  cookieOptions :: popts
  cookies :: bool
  refresh :: bool
  reqProperty :: string
  revoke_cb :: "jwt \<Rightarrow> world \<Rightarrow> world"
  signOptions :: popts
  stales :: int
  verify_cb :: "world \<Rightarrow> jwt \<Rightarrow> bool"
  verifyOptions :: popts

text \<open>
  The library \<open>jsonwebtoken\<close> (\<open>utils\<close> in the source) is not part of the program. It is
  a parameter: \<open>c_sign\<close> is \<open>utils.sign\<close>, \<open>c_verify\<close> is \<open>utils.verify\<close>, which
  returns the payload or throws, and \<open>c_decode\<close> is \<open>utils.decode\<close>, which returns the
  payload or \<open>null\<close>, or throws. Signing and verifying may read the clock.
\<close>

record codec =
  c_sign :: "int \<Rightarrow> obj \<Rightarrow> string \<Rightarrow> popts \<Rightarrow> string"
  c_verify :: "int \<Rightarrow> string \<Rightarrow> string \<Rightarrow> popts \<Rightarrow> exn + obj"
  c_decode :: "string \<Rightarrow> exn + obj option"

text \<open>The constructor: \<open>this.payload = {}\<close> is a new empty object.\<close>

definition JWT :: "string \<Rightarrow> world \<Rightarrow> world \<times> jwt" where
  "JWT sec w =
     (let (a, w1) = alloc Map.empty w in
      (w1, \<lparr>token = [], payload = a, secret = sec,
            valid = False, expired = False, stale = True\<rparr>))"

text \<open>
  \<open>sign(payload)\<close>: the assignment \<open>payload.stales = ...\<close> writes into the object the
  caller passed, then \<open>this.payload\<close> is that same object.
\<close>

definition sign :: "codec \<Rightarrow> options \<Rightarrow> addr \<Rightarrow> world \<times> jwt \<Rightarrow> world \<times> jwt" where
  "sign cd opts p = (\<lambda>(w0, j).
     let w = log_call Sign w0;
         w1 = w\<lparr>heap := (heap w)(p := (heap w p)(''stales'' \<mapsto> JNum (time w + stales opts)))\<rparr>;
         j1 = j\<lparr>payload := p\<rparr>;
         j2 = j1\<lparr>token := c_sign cd (time w1) (heap w1 (payload j1)) (secret j1) (signOptions opts)\<rparr>
     in (w1, j2\<lparr>valid := True, expired := False, stale := False\<rparr>))"

definition resign :: "codec \<Rightarrow> options \<Rightarrow> world \<times> jwt \<Rightarrow> world \<times> jwt" where
  "resign cd opts = (\<lambda>(w0, j). sign cd opts (payload j) (log_call Resign w0, j))"

definition revoke :: "options \<Rightarrow> world \<times> jwt \<Rightarrow> world \<times> jwt" where
  "revoke opts = (\<lambda>(w0, j). (revoke_cb opts j (log_call Revoke w0), j))"

text \<open>The response object, as far as the program uses it: the calls of \<open>res.cookie\<close>
  and of \<open>res.clearCookie\<close>.\<close>

record res =
  cookie_calls :: "(string \<times> string \<times> popts) list"
  clear_calls :: "string list"

definition store :: "options \<Rightarrow> res \<Rightarrow> world \<times> jwt \<Rightarrow> res \<times> world \<times> jwt" where
  "store opts rs = (\<lambda>(w0, j).
     let w = log_call Store w0 in
     if cookies opts
     then (rs\<lparr>cookie_calls := cookie_calls rs @ [(cookie opts, token j, cookieOptions opts)]\<rparr>, w, j)
     else (rs, w, j))"

text \<open>The object that \<open>toJSON\<close> returns: its keys in order, each with its value.\<close>

datatype jfield = FString string | FBool bool | FObject addr

definition toJSON :: "jwt \<Rightarrow> (string \<times> jfield) list" where
  "toJSON j =
     [(''token'', FString (token j)),
      (''payload'', FObject (payload j)),
      (''valid'', FBool (valid j)),
      (''expired'', FBool (expired j)),
      (''stale'', FBool (stale j))]"

text \<open>
  \<open>verify(token)\<close>: the three statements after the assignment of \<open>this.token\<close> are the
  functions \<open>verify_decode\<close> (the \<open>try\<close>/\<open>catch\<close>), \<open>verify_extra\<close> (the additional
  check of the options) and \<open>verify_stale\<close>. The payload that the codec returns is a new
  object, and so is \<open>{}\<close>. The call of \<open>utils.decode\<close> stands in the \<open>catch\<close> block,
  so what it throws leaves \<open>verify\<close>: the result is then \<open>Inl\<close> of the exception.
\<close>

definition verify_decode :: "codec \<Rightarrow> options \<Rightarrow> world \<times> jwt \<Rightarrow> exn + world \<times> jwt" where
  "verify_decode cd opts = (\<lambda>(w, j).
     case c_verify cd (time w) (token j) (secret j) (verifyOptions opts) of
       Inr ob \<Rightarrow>
         (let (a, w1) = alloc ob w in Inr (w1, j\<lparr>payload := a, valid := True\<rparr>))
     | Inl err \<Rightarrow>
         (case c_decode cd (token j) of
            Inl thrown \<Rightarrow> Inl thrown
          | Inr decoded \<Rightarrow>
              (let (a, w1) = alloc (case decoded of Some ob \<Rightarrow> ob | None \<Rightarrow> Map.empty) w;
                   j1 = j\<lparr>payload := a\<rparr>
               in if exn_name err = ''TokenExpiredError'' then Inr (w1, j1\<lparr>expired := True\<rparr>)
                  else Inr (w1, j1))))"

definition verify_extra :: "options \<Rightarrow> world \<times> jwt \<Rightarrow> world \<times> jwt" where
  "verify_extra opts = (\<lambda>(w, j).
     if valid j \<and> \<not> verify_cb opts w j then (w, j\<lparr>valid := False\<rparr>) else (w, j))"

definition verify_stale :: "runtime \<Rightarrow> world \<times> jwt \<Rightarrow> world \<times> jwt" where
  "verify_stale rt = (\<lambda>(w, j).
     let st = get_prop rt (heap w (payload j)) ''stales'' in
     if truthy st \<and> js_le rt (JNum (time w)) st then (w, j\<lparr>stale := False\<rparr>) else (w, j))"

text \<open>The argument is \<open>None\<close> for \<open>undefined\<close>; \<open>token || ''\<close> is the empty string then.\<close>

definition verify ::
  "runtime \<Rightarrow> codec \<Rightarrow> options \<Rightarrow> string option \<Rightarrow> world \<times> jwt \<Rightarrow> exn + world \<times> jwt" where
  "verify rt cd opts tok = (\<lambda>(w0, j).
     let w = log_call Verify w0;
         j1 = j\<lparr>token := (case tok of None \<Rightarrow> [] | Some t \<Rightarrow> t)\<rparr>
     in case verify_decode cd opts (w, j1) of
          Inl thrown \<Rightarrow> Inl thrown
        | Inr s \<Rightarrow> Inr (verify_stale rt (verify_extra opts s)))"


section \<open>The middleware\<close>

text \<open>How a middleware function ends: \<open>next()\<close> or \<open>next(err)\<close>.\<close>

datatype next_call = Next | NextErr exn

text \<open>
  The request, as far as the program reads and writes it: \<open>req.cookies\<close> (absent when no
  cookie parser ran), \<open>req.headers.authorization\<close>, and the tokens stored under a
  property name by \<open>req[reqProperty] = ...\<close>.
\<close>

record req =
  req_cookies :: "(string \<rightharpoonup> string) option"
  authorization :: "string option"
  attached :: "string \<rightharpoonup> jwt"

subsection \<open>active and valid\<close>

text \<open>
  \<open>var jwt = req[this.options.reqProperty] || {}\<close>: on the empty object the fields
  \<open>valid\<close> and \<open>stale\<close> read as \<open>undefined\<close>, which is falsy.
\<close>

definition active :: "options \<Rightarrow> req \<Rightarrow> next_call" where
  "active opts rq =
     (let jw = attached rq (reqProperty opts);
          jwt_valid = (case jw of None \<Rightarrow> False | Some j \<Rightarrow> valid j);
          jwt_stale = (case jw of None \<Rightarrow> False | Some j \<Rightarrow> stale j)
      in if \<not> jwt_valid then NextErr (JWTExpressError ''JWT is invalid'' [])
         else if jwt_stale then NextErr (JWTExpressError ''JWT is stale'' [])
         else Next)"

definition valid_guard :: "options \<Rightarrow> req \<Rightarrow> next_call" where
  "valid_guard opts rq =
     (let jw = attached rq (reqProperty opts);
          jwt_valid = (case jw of None \<Rightarrow> False | Some j \<Rightarrow> valid j)
      in if \<not> jwt_valid then NextErr (JWTExpressError ''JWT is invalid'' [])
         else Next)"

subsection \<open>require\<close>

definition operators :: "string list" where
  "operators = [''=='', ''==='', ''!='', ''!=='', ''<'', ''<='', ''>'', ''>='']"

text \<open>The chain of \<open>if\<close>/\<open>else if\<close> over the operator; \<open>ok\<close> stays \<open>undefined\<close>,
  which is falsy, when no branch is taken.\<close>

definition compare_op :: "runtime \<Rightarrow> string \<Rightarrow> jsval \<Rightarrow> jsval \<Rightarrow> bool" where
  "compare_op rt operator data val =
     (if operator = ''=='' then loose_eq rt data val
      else if operator = ''==='' then strict_eq data val
      else if operator = ''!='' then \<not> loose_eq rt data val
      else if operator = ''!=='' then \<not> strict_eq data val
      else if operator = ''<'' then js_lt rt data val
      else if operator = ''<='' then js_le rt data val
      else if operator = ''>'' then js_gt rt data val
      else if operator = ''>='' then js_ge rt data val
      else False)"

text \<open>
  The middleware that \<open>require\<close> returns. An operator argument is \<open>None\<close> when it
  is not passed; the empty string is falsy as well, so \<open>!operator\<close> holds for both.
  Without a token the payload is that of \<open>{payload: {}}\<close>, an object with no own
  property.
\<close>

definition require_mw ::
  "runtime \<Rightarrow> options \<Rightarrow> string \<Rightarrow> string option \<Rightarrow> jsval \<Rightarrow> world \<Rightarrow> req \<Rightarrow> next_call" where
  "require_mw rt opts key operator val w rq =
     (let pl = (case attached rq (reqProperty opts) of
                  None \<Rightarrow> Map.empty
                | Some j \<Rightarrow> heap w (payload j));
          data = get_prop rt pl key;
          (operator1, val1) = (case operator of
                                 None \<Rightarrow> (''=='', JBool True)
                               | Some s \<Rightarrow> if s = [] then (''=='', JBool True) else (s, val));
          ok = compare_op rt operator1 data val1
      in if \<not> ok
         then NextErr (JWTExpressError ''JWT is insufficient''
                [(''key'', JStr key), (''data'', data),
                 (''operator'', JStr operator1), (''value'', val1)])
         else Next)"

text \<open>\<open>require(key, operator, value)\<close>: the two checks run when the guard is built.\<close>

definition require ::
  "runtime \<Rightarrow> options \<Rightarrow> string \<Rightarrow> string option \<Rightarrow> jsval \<Rightarrow>
     exn + (world \<Rightarrow> req \<Rightarrow> next_call)" where
  "require rt opts key operator val =
     (if key = [] then Inl (ReferenceError ''key must be defined'')
      else case operator of
             None \<Rightarrow> Inr (require_mw rt opts key operator val)
           | Some s \<Rightarrow>
               if s \<noteq> [] \<and> s \<notin> set operators
               then Inl (JWTExpressError (''Invalid operator: '' @ s) [])
               else Inr (require_mw rt opts key operator val))"

subsection \<open>init and create\<close>

text \<open>A secret is a string or a function of the request (of the payload, for
  \<open>create\<close>).\<close>

datatype 'a secret_src = SecretStr string | SecretFn "'a \<Rightarrow> string"

definition secret_falsy :: "'a secret_src \<Rightarrow> bool" where
  "secret_falsy sc = (case sc of SecretStr s \<Rightarrow> s = [] | SecretFn f \<Rightarrow> False)"

definition secret_fn :: "'a secret_src \<Rightarrow> 'a \<Rightarrow> string" where
  "secret_fn sc = (case sc of SecretStr s \<Rightarrow> (\<lambda>x. s) | SecretFn f \<Rightarrow> f)"

text \<open>The options a caller passes to \<open>init\<close>: a field is \<open>None\<close> when it is
  \<open>undefined\<close>, and then the default is taken.\<close>

record user_options =
  u_cookie :: "string option"
  u_cookieOptions :: "popts option"
  u_cookies :: "bool option"
  u_refresh :: "bool option"
  u_reqProperty :: "string option"
  u_revoke :: "(jwt \<Rightarrow> world \<Rightarrow> world) option"
  u_signOptions :: "popts option"
  u_stales :: "int option"
  u_verify :: "(world \<Rightarrow> jwt \<Rightarrow> bool) option"
  u_verifyOptions :: "popts option"

definition or_default :: "'a option \<Rightarrow> 'a \<Rightarrow> 'a" where
  "or_default x d = (case x of None \<Rightarrow> d | Some v \<Rightarrow> v)"

definition merge_options :: "user_options \<Rightarrow> options" where
  "merge_options u =
     \<lparr>cookie = or_default (u_cookie u) ''jwt-express'',
      cookieOptions = or_default (u_cookieOptions u) [(''httpOnly'', JBool True)],
      cookies = or_default (u_cookies u) True,
      refresh = or_default (u_refresh u) True,
      reqProperty = or_default (u_reqProperty u) ''jwt'',
      revoke_cb = or_default (u_revoke u) (\<lambda>j w. w),
      signOptions = or_default (u_signOptions u) [],
      stales = or_default (u_stales u) 900000,
      verify_cb = or_default (u_verify u) (\<lambda>w j. True),
      verifyOptions = or_default (u_verifyOptions u) []\<rparr>"

text \<open>\<open>s.split(' ')\<close> and the element at an index, \<open>None\<close> beyond the end.\<close>

fun split_on :: "char \<Rightarrow> string \<Rightarrow> string list" where
  "split_on c [] = [[]]"
| "split_on c (x # xs) =
     (if x = c then [] # split_on c xs
      else case split_on c xs of
             [] \<Rightarrow> [[x]]
           | y # ys \<Rightarrow> (x # y) # ys)"

definition nth_opt :: "'a list \<Rightarrow> nat \<Rightarrow> 'a option" where
  "nth_opt xs i = (if i < length xs then Some (xs ! i) else None)"

text \<open>
  The middleware that \<open>init\<close> returns, up to its call of \<open>next()\<close>. Its first
  statement, which reads the token from the cookie or from the header, is
  \<open>extract_token\<close>; reading \<open>req.cookies[...]\<close> throws when \<open>req.cookies\<close> is
  \<open>undefined\<close>, and an exception that leaves \<open>verify\<close> leaves the middleware. The
  token stored in the request is the object that \<open>resign\<close> then mutates, so the request
  holds the token in its last state.
\<close>

definition extract_token :: "options \<Rightarrow> req \<Rightarrow> exn + string option" where
  "extract_token opts rq =
     (if cookies opts
      then (case req_cookies rq of
              None \<Rightarrow> Inl (TypeError ''Cannot read properties of undefined'')
            | Some cs \<Rightarrow> Inr (cs (cookie opts)))
      else (case authorization rq of
              None \<Rightarrow> Inr None
            | Some a \<Rightarrow> if a = [] then Inr None else Inr (nth_opt (split_on CHR '' '' a) 1)))"

definition init_mw ::
  "runtime \<Rightarrow> codec \<Rightarrow> options \<Rightarrow> (req \<Rightarrow> string) \<Rightarrow> req \<Rightarrow> res \<Rightarrow> world \<Rightarrow>
     exn + (req \<times> res \<times> world)" where
  "init_mw rt cd opts secretf rq rs w =
     (case extract_token opts rq of
        Inl e \<Rightarrow> Inl e
      | Inr tok \<Rightarrow>
          (case verify rt cd opts tok (JWT (secretf rq) w) of
             Inl thrown \<Rightarrow> Inl thrown
           | Inr (w1, j1) \<Rightarrow>
               if valid j1 \<and> \<not> stale j1 \<and> refresh opts
               then (let (rs2, w2, j2) = store opts rs (resign cd opts (w1, j1)) in
                     Inr (rq\<lparr>attached := (attached rq)(reqProperty opts \<mapsto> j2)\<rparr>, rs2, w2))
               else Inr (rq\<lparr>attached := (attached rq)(reqProperty opts \<mapsto> j1)\<rparr>, rs, w1)))"

text \<open>\<open>res.jwt(payload)\<close>, installed by the middleware.\<close>

definition res_jwt ::
  "codec \<Rightarrow> options \<Rightarrow> (req \<Rightarrow> string) \<Rightarrow> req \<Rightarrow> addr \<Rightarrow> res \<Rightarrow> world \<Rightarrow> res \<times> world \<times> jwt" where
  "res_jwt cd opts secretf rq p rs w = store opts rs (sign cd opts p (JWT (secretf rq) w))"

definition init ::
  "req secret_src \<Rightarrow> user_options \<Rightarrow> exn + (options \<times> (req \<Rightarrow> string))" where
  "init sc u =
     (if secret_falsy sc then Inl (ReferenceError ''secret must be defined'')
      else Inr (merge_options u, secret_fn sc))"

definition create ::
  "codec \<Rightarrow> options \<Rightarrow> obj secret_src \<Rightarrow> addr \<Rightarrow> world \<Rightarrow> exn + (world \<times> jwt)" where
  "create cd opts sc p w =
     (if secret_falsy sc then Inl (ReferenceError ''secret must be defined'')
      else Inr (sign cd opts p (JWT (secret_fn sc (heap w p)) w)))"


section \<open>Sample data\<close>

subsection \<open>A sample runtime\<close>

text \<open>
  A runtime for evaluating the program at concrete inputs. Its conversion of strings
  knows the decimal integer literals only: surrounding white space is dropped, the empty
  string is 0, an optional sign may precede the digits, and every other string is NaN.
  Its strings are ordered by their bytes, its objects all convert to one string, and its
  prototype has the one property \<open>constructor\<close>.
\<close>

definition is_space :: "char \<Rightarrow> bool" where
  "is_space c = (c \<in> set [CHR '' '', CHR 0x09, CHR 0x0A, CHR 0x0B, CHR 0x0C, CHR 0x0D])"

definition trim :: "string \<Rightarrow> string" where
  "trim s = rev (dropWhile is_space (rev (dropWhile is_space s)))"

definition is_digit :: "char \<Rightarrow> bool" where
  "is_digit c = (48 \<le> (of_char c :: nat) \<and> (of_char c :: nat) \<le> 57)"

fun digits_val :: "nat \<Rightarrow> string \<Rightarrow> nat" where
  "digits_val acc [] = acc"
| "digits_val acc (c # cs) = digits_val (10 * acc + (of_char c - 48)) cs"

definition unsigned_num :: "string \<Rightarrow> int option" where
  "unsigned_num s = (if s \<noteq> [] \<and> list_all is_digit s then Some (int (digits_val 0 s)) else None)"

definition decimal_number :: "string \<Rightarrow> number" where
  "decimal_number s =
     (let t = trim s in
      case t of
        [] \<Rightarrow> Fin 0
      | c # cs \<Rightarrow>
          (case (if c = CHR ''-'' then map_option uminus (unsigned_num cs)
                 else if c = CHR ''+'' then unsigned_num cs
                 else unsigned_num t) of
             None \<Rightarrow> NaN
           | Some n \<Rightarrow> Fin (of_int n)))"

fun str_lt :: "string \<Rightarrow> string \<Rightarrow> bool" where
  "str_lt [] [] = False"
| "str_lt [] (d # t) = True"
| "str_lt (c # s) [] = False"
| "str_lt (c # s) (d # t) =
     ((of_char c :: nat) < of_char d \<or> (c = d \<and> str_lt s t))"

definition sample_runtime :: runtime where
  "sample_runtime =
     \<lparr>string_to_number = decimal_number,
      string_lt = str_lt,
      to_primitive = (\<lambda>r. ''[object Object]''),
      object_prototype = [''constructor'' \<mapsto> JObject 0]\<rparr>"

subsection \<open>Sample codecs\<close>

text \<open>
  A codec that knows four tokens: \<open>good\<close> verifies to a payload stamped 900100, \<open>edge\<close>
  verifies to a payload stamped 100, \<open>old\<close> has expired and decodes to a payload stamped
  5, and \<open>broken\<close> is rejected and makes \<open>decode\<close> throw; every other string is rejected
  and does not decode. Signing returns \<open>good\<close>.
\<close>

definition sample_codec :: codec where
  "sample_codec =
     \<lparr>c_sign = (\<lambda>t ob sec so. ''good''),
      c_verify = (\<lambda>t tok sec vo.
         if tok = ''good'' then Inr [''stales'' \<mapsto> JNum 900100]
         else if tok = ''edge'' then Inr [''stales'' \<mapsto> JNum 100]
         else if tok = ''old'' then Inl (LibraryError ''TokenExpiredError'')
         else Inl (LibraryError ''JsonWebTokenError'')),
      c_decode = (\<lambda>tok.
         if tok = ''old'' then Inr (Some [''stales'' \<mapsto> JNum 5])
         else if tok = ''broken'' then Inl (LibraryError ''SyntaxError'')
         else Inr None)\<rparr>"

text \<open>
  A codec that writes claims into the token and reads them back. A token is the secret,
  the claim \<open>admin\<close>, the claim \<open>stales\<close> and the time of issue in seconds, separated by
  dots. Like \<open>jsonwebtoken\<close> with its default options it adds the claim \<open>iat\<close>, the time
  of issue, to what was signed. Verifying compares the secret.
\<close>

fun enc_nat :: "nat \<Rightarrow> string" where
  "enc_nat n =
     (if n < 10 then [''0123456789'' ! n]
      else enc_nat (n div 10) @ [''0123456789'' ! (n mod 10)])"

definition enc_admin :: "obj \<Rightarrow> string" where
  "enc_admin ob =
     (case ob ''admin'' of
        Some (JBool b) \<Rightarrow> (if b then ''t'' else ''f'')
      | _ \<Rightarrow> ''-'')"

definition dec_admin :: "string \<Rightarrow> obj" where
  "dec_admin a =
     (if a = ''t'' then [''admin'' \<mapsto> JBool True]
      else if a = ''f'' then [''admin'' \<mapsto> JBool False]
      else Map.empty)"

definition enc_stales :: "obj \<Rightarrow> string" where
  "enc_stales ob =
     (case ob ''stales'' of
        Some (JNum n) \<Rightarrow> enc_nat (nat n)
      | _ \<Rightarrow> ''-'')"

definition iat_sign :: "int \<Rightarrow> obj \<Rightarrow> string \<Rightarrow> popts \<Rightarrow> string" where
  "iat_sign t ob sec so =
     sec @ ''.'' @ enc_admin ob @ ''.'' @ enc_stales ob @ ''.'' @ enc_nat (nat (t div 1000))"

definition iat_parse :: "string \<Rightarrow> (string \<times> obj) option" where
  "iat_parse tok =
     (case split_on CHR ''.'' tok of
        [s, a, st, ia] \<Rightarrow>
          (case (unsigned_num st, unsigned_num ia) of
             (Some n, Some m) \<Rightarrow> Some (s, (dec_admin a)(''stales'' \<mapsto> JNum n, ''iat'' \<mapsto> JNum m))
           | _ \<Rightarrow> None)
      | _ \<Rightarrow> None)"

definition iat_codec :: codec where
  "iat_codec =
     \<lparr>c_sign = iat_sign,
      c_verify = (\<lambda>t tok sec vo.
         case iat_parse tok of
           Some (s, ob) \<Rightarrow> if s = sec then Inr ob else Inl (LibraryError ''JsonWebTokenError'')
         | None \<Rightarrow> Inl (LibraryError ''JsonWebTokenError'')),
      c_decode = (\<lambda>tok. Inr (map_option snd (iat_parse tok)))\<rparr>"

subsection \<open>Sample options, worlds and requests\<close>

text \<open>No option passed to \<open>init\<close>: the defaults.\<close>

definition no_options :: user_options where
  "no_options =
     \<lparr>u_cookie = None, u_cookieOptions = None, u_cookies = None, u_refresh = None,
      u_reqProperty = None, u_revoke = None, u_signOptions = None, u_stales = None,
      u_verify = None, u_verifyOptions = None\<rparr>"

definition default_options :: options where
  "default_options = merge_options no_options"

text \<open>A world whose clock reads 100, with one object, the empty object at address 0.\<close>

definition world0 :: world where
  "world0 = \<lparr>heap = (\<lambda>a. Map.empty), nxt = 1, time = 100, calls = []\<rparr>"

text \<open>The defaults, with an additional check that rejects every token.\<close>

definition rejecting_options :: options where
  "rejecting_options = default_options\<lparr>verify_cb := (\<lambda>w j. False)\<rparr>"

text \<open>A token of the store's object 0 that is valid and stale, and a request that holds
  a given token (or none) under the property \<open>jwt\<close>.\<close>

definition sample_token :: jwt where
  "sample_token = \<lparr>token = ''good'', payload = 0, secret = ''k'',
                   valid = True, expired = False, stale = True\<rparr>"

definition sample_req :: "jwt option \<Rightarrow> req" where
  "sample_req jw = \<lparr>req_cookies = Some Map.empty, authorization = None,
                    attached = (\<lambda>k. if k = ''jwt'' then jw else None)\<rparr>"

text \<open>The world in which object 0 is \<open>{admin: b}\<close>.\<close>

definition admin_world :: "bool \<Rightarrow> world" where
  "admin_world b = world0\<lparr>heap := (heap world0)(0 := [''admin'' \<mapsto> JBool b])\<rparr>"

text \<open>A request whose cookie \<open>jwt-express\<close> is the given string, and a response on
  which nothing was called yet.\<close>

definition cookie_req :: "string \<Rightarrow> req" where
  "cookie_req t = \<lparr>req_cookies = Some [''jwt-express'' \<mapsto> t], authorization = None,
                   attached = Map.empty\<rparr>"

definition res0 :: res where
  "res0 = \<lparr>cookie_calls = [], clear_calls = []\<rparr>"

section \<open>Properties\<close>

declare enc_nat.simps [simp del]

lemmas jwt_defs = JWT_def sign_def resign_def verify_def verify_decode_def verify_extra_def
  verify_stale_def alloc_def log_call_def store_def

lemmas sample_defs = sample_runtime_def sample_codec_def default_options_def merge_options_def no_options_def
  or_default_def world0_def

lemmas runtime_defs = sample_runtime_def decimal_number_def trim_def is_space_def
  unsigned_num_def is_digit_def

lemmas iat_defs = iat_codec_def iat_sign_def iat_parse_def enc_admin_def dec_admin_def
  enc_stales_def unsigned_num_def is_digit_def

lemma js_le_num: "js_le rt (JNum a) (JNum b) = (a \<le> b)"
  by (auto simp: js_le_def rel_lt_def)

lemma get_prop_own: "ob k = Some v \<Longrightarrow> get_prop rt ob k = v"
  by (simp add: get_prop_def)

subsection \<open>Signing and verifying\<close>

text \<open>
  C1 (as amended). A token is signed with the payload object at \<open>p\<close>, whose content is
  \<open>heap w p\<close>, when the clock reads \<open>time w\<close>; the signed payload is the caller's
  claims plus \<open>stales = time w + stales opts\<close>. The produced token string is then
  verified at clock reading \<open>t2\<close>, with the same secret and options, by the token object
  itself or by any token object that is not marked expired (a new one is not). If the
  codec accepts the token string and returns a payload with the \<open>stales\<close> claim of the
  signed payload, the additional check of the options accepts the token as decoded, and the clock is
  positive and has not advanced past the stamp, then \<open>verify\<close> returns, the result is
  valid, not expired and not stale, and its claims are the payload that the codec
  returned. They contain the caller's claims and the stamp whenever the returned payload
  contains the signed one; the codec may have added claims of its own.
\<close>

theorem sign_verify_roundtrip:
  assumes sg: "sign cd opts p (w, j) = (w1, j1)"
    and jv: "secret jv = secret j1" "\<not> expired jv"
    and cv: "c_verify cd t2 (token j1) (secret j1) (verifyOptions opts) = Inr ob"
    and stamp: "ob ''stales'' = heap w1 p ''stales''"
    and cb: "verify_cb opts (snd (alloc ob (log_call Verify (w1\<lparr>time := t2\<rparr>))))
               (jv\<lparr>token := token j1, payload := nxt w1, valid := True\<rparr>)"
    and tm: "0 < time w" "time w \<le> t2" "t2 \<le> time w + stales opts"
  shows "\<exists>w3 j3. verify rt cd opts (Some (token j1)) (w1\<lparr>time := t2\<rparr>, jv) = Inr (w3, j3) \<and>
           valid j3 \<and> \<not> expired j3 \<and> \<not> stale j3 \<and>
           heap w3 (payload j3) = ob \<and>
           heap w3 (payload j3) ''stales'' = Some (JNum (time w + stales opts)) \<and>
           heap w1 p = (heap w p)(''stales'' \<mapsto> JNum (time w + stales opts)) \<and>
           (heap w1 p \<subseteq>\<^sub>m ob \<longrightarrow>
              (heap w p)(''stales'' \<mapsto> JNum (time w + stales opts)) \<subseteq>\<^sub>m heap w3 (payload j3))"
proof -
  have h1: "heap w1 p = (heap w p)(''stales'' \<mapsto> JNum (time w + stales opts))"
    using sg by (auto simp: sign_def log_call_def Let_def)
  have so: "ob ''stales'' = Some (JNum (time w + stales opts))"
    using stamp h1 by simp
  then have st: "get_prop rt ob ''stales'' = JNum (time w + stales opts)"
    by (rule get_prop_own)
  show ?thesis
    using cv cb jv tm h1 st so
    by (auto simp: verify_def verify_decode_def verify_extra_def verify_stale_def alloc_def
        log_call_def Let_def js_le_num)
qed

lemma iat_token: "iat_sign 100 [''admin'' \<mapsto> JBool True, ''stales'' \<mapsto> JNum 900100] ''k'' so = ''k.t.900100.0''"
  by (simp add: iat_defs enc_nat.simps)

lemma iat_back: "iat_parse ''k.t.900100.0'' =
    Some (''k'', [''admin'' \<mapsto> JBool True, ''stales'' \<mapsto> JNum 900100, ''iat'' \<mapsto> JNum 0])"
  by (simp add: iat_defs)

theorem sign_verify_roundtrip_witness:
  "let s1 = sign iat_codec default_options 0 (JWT ''k'' (admin_world True));
       ob = [''admin'' \<mapsto> JBool True, ''stales'' \<mapsto> JNum 900100, ''iat'' \<mapsto> JNum 0]
   in token (snd s1) = ''k.t.900100.0'' \<and>
      c_verify iat_codec 200 (token (snd s1)) (secret (snd s1)) (verifyOptions default_options)
        = Inr ob \<and>
      (\<exists>w3 j3. verify sample_runtime iat_codec default_options (Some (token (snd s1)))
                  ((fst s1)\<lparr>time := 200\<rparr>, snd s1) = Inr (w3, j3) \<and>
         valid j3 \<and> \<not> expired j3 \<and> \<not> stale j3 \<and> heap w3 (payload j3) = ob \<and>
         [''admin'' \<mapsto> JBool True, ''stales'' \<mapsto> JNum 900100] \<subseteq>\<^sub>m heap w3 (payload j3))"
proof -
  define s0 where "s0 = JWT ''k'' (admin_world True)"
  define s1 where "s1 = sign iat_codec default_options 0 s0"
  define ob :: obj where
    "ob = [''admin'' \<mapsto> JBool True, ''stales'' \<mapsto> JNum 900100, ''iat'' \<mapsto> JNum 0]"
  have a: "sign iat_codec default_options 0 (fst s0, snd s0) = (fst s1, snd s1)"
    by (simp add: s1_def)
  have t0: "time (fst s0) = 100" and h0: "heap (fst s0) 0 = [''admin'' \<mapsto> JBool True]"
    and st: "stales default_options = 900000"
    by (simp_all add: s0_def jwt_defs sample_defs admin_world_def)
  have hp: "heap (fst s1) 0 = [''admin'' \<mapsto> JBool True, ''stales'' \<mapsto> JNum 900100]"
    by (simp add: s1_def s0_def jwt_defs sample_defs admin_world_def)
  have sec: "secret (snd s1) = ''k''" and ex: "\<not> expired (snd s1)"
    by (simp_all add: s1_def s0_def jwt_defs)
  have "token (snd s1) = iat_sign 100 [''admin'' \<mapsto> JBool True, ''stales'' \<mapsto> JNum 900100] ''k''
          (signOptions default_options)"
    by (simp add: s1_def s0_def jwt_defs sample_defs admin_world_def iat_codec_def)
  then have tok: "token (snd s1) = ''k.t.900100.0''"
    by (simp only: iat_token)
  have cv: "c_verify iat_codec 200 (token (snd s1)) (secret (snd s1)) (verifyOptions default_options)
        = Inr ob"
    unfolding tok sec by (simp add: iat_codec_def iat_back ob_def)
  have stamp: "ob ''stales'' = heap (fst s1) 0 ''stales''"
    by (simp add: ob_def hp)
  have cb: "verify_cb default_options
              (snd (alloc ob (log_call Verify ((fst s1)\<lparr>time := 200\<rparr>))))
              ((snd s1)\<lparr>token := token (snd s1), payload := nxt (fst s1), valid := True\<rparr>)"
    by (simp add: sample_defs)
  have le: "heap (fst s1) 0 \<subseteq>\<^sub>m ob"
    by (simp add: hp ob_def map_le_def)
  from sign_verify_roundtrip [OF a refl ex cv stamp cb, of sample_runtime] t0 st
  obtain w3 j3 where
    r: "verify sample_runtime iat_codec default_options (Some (token (snd s1)))
          ((fst s1)\<lparr>time := 200\<rparr>, snd s1) = Inr (w3, j3)"
      "valid j3" "\<not> expired j3" "\<not> stale j3" "heap w3 (payload j3) = ob"
      "heap (fst s1) 0 \<subseteq>\<^sub>m ob \<longrightarrow>
         (heap (fst s0) 0)(''stales'' \<mapsto> JNum (time (fst s0) + stales default_options))
           \<subseteq>\<^sub>m heap w3 (payload j3)"
    by auto
  from r(6) le have "[''admin'' \<mapsto> JBool True, ''stales'' \<mapsto> JNum 900100] \<subseteq>\<^sub>m heap w3 (payload j3)"
    by (simp add: h0 t0 st)
  with r tok cv show ?thesis
    unfolding Let_def s1_def [symmetric] s0_def [symmetric] ob_def [symmetric]
    by blast
qed

text \<open>
  C1 as stated fails. With options whose additional check rejects the token, signing and
  verifying the produced string gives a token that is not valid. With the default options
  and a codec that adds the time of issue, as \<open>jsonwebtoken\<close> does, the result is valid
  and its claims are not the caller's claims plus the stamp: they hold \<open>iat\<close> as well.
\<close>

theorem sign_verify_roundtrip_counterexample:
  "(let s1 = sign sample_codec rejecting_options 0 (JWT ''k'' world0) in
    case verify sample_runtime sample_codec rejecting_options (Some (token (snd s1))) s1 of
      Inr (w3, j3) \<Rightarrow> \<not> valid j3
    | Inl e \<Rightarrow> False) \<and>
   (let s1 = sign iat_codec default_options 0 (JWT ''k'' (admin_world True)) in
    case verify sample_runtime iat_codec default_options (Some (token (snd s1))) s1 of
      Inr (w3, j3) \<Rightarrow>
        valid j3 \<and> heap w3 (payload j3) ''iat'' = Some (JNum 0) \<and>
        heap w3 (payload j3) \<noteq> [''admin'' \<mapsto> JBool True, ''stales'' \<mapsto> JNum 900100]
    | Inl e \<Rightarrow> False)"
proof -
  have ne: "[''admin'' \<mapsto> JBool True, ''stales'' \<mapsto> JNum 900100, ''iat'' \<mapsto> JNum 0]
        \<noteq> [''admin'' \<mapsto> JBool True, ''stales'' \<mapsto> JNum 900100]"
  proof
    assume "[''admin'' \<mapsto> JBool True, ''stales'' \<mapsto> JNum 900100, ''iat'' \<mapsto> JNum 0]
        = [''admin'' \<mapsto> JBool True, ''stales'' \<mapsto> JNum 900100]"
    then have "[''admin'' \<mapsto> JBool True, ''stales'' \<mapsto> JNum 900100, ''iat'' \<mapsto> JNum 0] ''iat''
        = [''admin'' \<mapsto> JBool True, ''stales'' \<mapsto> JNum 900100] ''iat''"
      by (rule arg_cong)
    then show False by simp
  qed
  have 1: "let s1 = sign sample_codec rejecting_options 0 (JWT ''k'' world0) in
    case verify sample_runtime sample_codec rejecting_options (Some (token (snd s1))) s1 of
      Inr (w3, j3) \<Rightarrow> \<not> valid j3
    | Inl e \<Rightarrow> False"
    by (simp add: jwt_defs sample_defs rejecting_options_def Let_def get_prop_def js_le_num)
  have 2: "let s1 = sign iat_codec default_options 0 (JWT ''k'' (admin_world True)) in
    case verify sample_runtime iat_codec default_options (Some (token (snd s1))) s1 of
      Inr (w3, j3) \<Rightarrow>
        valid j3 \<and> heap w3 (payload j3) ''iat'' = Some (JNum 0) \<and>
        heap w3 (payload j3) \<noteq> [''admin'' \<mapsto> JBool True, ''stales'' \<mapsto> JNum 900100]
    | Inl e \<Rightarrow> False"
    using ne
    by (simp add: jwt_defs sample_defs admin_world_def Let_def get_prop_def js_le_num
        iat_codec_def iat_token iat_back)
  from 1 2 show ?thesis by (rule conjI)
qed

subsection \<open>Staleness\<close>

text \<open>
  C2 (as amended). After \<open>verify\<close> on a newly constructed token, \<open>stale\<close> is false
  exactly when the claims hold a truthy \<open>stales\<close> value that the clock reading of the
  call is less than or equal to, in JavaScript's \<open><=\<close>. For a number \<open>n\<close> that is: \<open>n\<close>
  is not 0 and the clock reads at most \<open>n\<close>, so a token whose stamp equals the clock
  reading is not stale; a string stamp is compared through the runtime's conversion to a
  number. Without a \<open>stales\<close> property, own or inherited, the token is stale.
\<close>

theorem verify_fresh_stale:
  assumes "verify rt cd opts tok (JWT sec w) = Inr (w', j')"
  shows "time w' = time w \<and>
     (stale j' \<longleftrightarrow>
        \<not> (truthy (get_prop rt (heap w' (payload j')) ''stales'') \<and>
           js_le rt (JNum (time w)) (get_prop rt (heap w' (payload j')) ''stales''))) \<and>
     (\<forall>n. heap w' (payload j') ''stales'' = Some (JNum n) \<longrightarrow>
          (\<not> stale j' \<longleftrightarrow> n \<noteq> 0 \<and> time w \<le> n)) \<and>
     (\<forall>s. heap w' (payload j') ''stales'' = Some (JStr s) \<longrightarrow>
          (\<not> stale j' \<longleftrightarrow>
             s \<noteq> [] \<and> num_lt (string_to_number rt s) (Fin (of_int (time w))) = Some False)) \<and>
     (heap w' (payload j') ''stales'' = None \<and> object_prototype rt ''stales'' = None \<longrightarrow>
          stale j')"
proof -
  let ?st = "get_prop rt (heap w' (payload j')) ''stales''"
  have t: "time w' = time w"
    using assms
    by (auto simp: jwt_defs Let_def split: sum.splits option.splits if_splits)
  have e: "stale j' \<longleftrightarrow> \<not> (truthy ?st \<and> js_le rt (JNum (time w)) ?st)"
    using assms
    by (auto simp: jwt_defs Let_def split: sum.splits option.splits if_splits)
  have n: "\<not> stale j' \<longleftrightarrow> n \<noteq> 0 \<and> time w \<le> n"
    if "heap w' (payload j') ''stales'' = Some (JNum n)" for n
    using e that by (simp add: get_prop_def js_le_num)
  have s: "\<not> stale j' \<longleftrightarrow>
             s \<noteq> [] \<and> num_lt (string_to_number rt s) (Fin (of_int (time w))) = Some False"
    if "heap w' (payload j') ''stales'' = Some (JStr s)" for s
    using e that by (simp add: get_prop_def js_le_def rel_lt_def)
  have u: "stale j'"
    if "heap w' (payload j') ''stales'' = None \<and> object_prototype rt ''stales'' = None"
    using e that by (simp add: get_prop_def)
  from t e n s u show ?thesis
    by blast
qed

theorem verify_fresh_stale_witness:
  "case verify sample_runtime sample_codec default_options (Some ''good'') (JWT ''k'' world0) of
     Inr (w', j') \<Rightarrow> heap w' (payload j') ''stales'' = Some (JNum 900100) \<and> \<not> stale j'
   | Inl e \<Rightarrow> False"
proof -
  obtain w' j' where
    e: "verify sample_runtime sample_codec default_options (Some ''good'') (JWT ''k'' world0)
          = Inr (w', j')"
    by (simp add: jwt_defs sample_defs Let_def get_prop_def js_le_num)
  then have f: "heap w' (payload j') ''stales'' = Some (JNum 900100)"
    by (auto simp: jwt_defs sample_defs Let_def get_prop_def js_le_num)
  have t: "time world0 = 100"
    by (simp add: world0_def)
  from verify_fresh_stale [OF e] f t have "\<not> stale j'"
    by (simp add: get_prop_def js_le_num)
  with f e show ?thesis
    by simp
qed

text \<open>
  C2 as stated fails: the token \<open>edge\<close> carries a stamp equal to the clock reading, and
  after \<open>verify\<close> it is not stale.
\<close>

theorem verify_stale_counterexample:
  "case verify sample_runtime sample_codec default_options (Some ''edge'') (JWT ''k'' world0) of
     Inr (w', j') \<Rightarrow>
       get_prop sample_runtime (heap w' (payload j')) ''stales'' = JNum (time w') \<and> \<not> stale j'
   | Inl e \<Rightarrow> False"
  by (simp add: jwt_defs sample_defs Let_def get_prop_def js_le_num)

subsection \<open>Validity and expiry\<close>

text \<open>
  C3. The program breaks the invariant that a valid token is not expired: \<open>verify\<close>
  assigns \<open>valid\<close> only on success and never clears it, so a token that was signed and
  then verifies an expired token string is both valid and expired.
\<close>

theorem valid_and_expired_after_reuse:
  "case verify sample_runtime sample_codec default_options (Some ''old'')
          (sign sample_codec default_options 0 (JWT ''k'' world0)) of
     Inr (w', j') \<Rightarrow> valid j' \<and> expired j'
   | Inl e \<Rightarrow> False"
  by (simp add: jwt_defs sample_defs Let_def get_prop_def js_le_num)




subsection \<open>The guards\<close>

text \<open>
  C5. \<open>active\<close> calls \<open>next()\<close> exactly when the request holds a token that is
  valid and not stale. Without a token, or with a token that is not valid (stale or
  not), it passes the error \<open>JWT is invalid\<close>; with a valid and stale token it passes
  \<open>JWT is stale\<close>. The function is total: a missing token is the case \<open>None\<close>.
\<close>

theorem active_passes_iff:
  "(active opts rq = Next \<longleftrightarrow>
      (\<exists>j. attached rq (reqProperty opts) = Some j \<and> valid j \<and> \<not> stale j)) \<and>
   ((attached rq (reqProperty opts) = None \<or>
     (\<exists>j. attached rq (reqProperty opts) = Some j \<and> \<not> valid j)) \<longrightarrow>
      active opts rq = NextErr (JWTExpressError ''JWT is invalid'' [])) \<and>
   ((\<exists>j. attached rq (reqProperty opts) = Some j \<and> valid j \<and> stale j) \<longrightarrow>
      active opts rq = NextErr (JWTExpressError ''JWT is stale'' []))"
  by (auto simp: active_def Let_def split: option.splits)

theorem active_passes_iff_witness:
  "active default_options (sample_req (Some sample_token))
     = NextErr (JWTExpressError ''JWT is stale'' []) \<and>
   active default_options (sample_req None)
     = NextErr (JWTExpressError ''JWT is invalid'' []) \<and>
   active default_options (sample_req (Some (sample_token\<lparr>stale := False\<rparr>))) = Next"
proof -
  have p: "reqProperty default_options = ''jwt''"
    by (simp add: sample_defs)
  have a: "\<exists>j. attached (sample_req (Some sample_token)) (reqProperty default_options) = Some j \<and>
             valid j \<and> stale j"
    by (simp add: p sample_req_def sample_token_def)
  have b: "attached (sample_req None) (reqProperty default_options) = None"
    by (simp add: p sample_req_def)
  have c: "\<exists>j. attached (sample_req (Some (sample_token\<lparr>stale := False\<rparr>)))
                 (reqProperty default_options) = Some j \<and> valid j \<and> \<not> stale j"
    by (simp add: p sample_req_def sample_token_def)
  from active_passes_iff [of default_options "sample_req (Some sample_token)"] a
  have 1: "active default_options (sample_req (Some sample_token))
     = NextErr (JWTExpressError ''JWT is stale'' [])"
    by blast
  from active_passes_iff [of default_options "sample_req None"] b
  have 2: "active default_options (sample_req None)
     = NextErr (JWTExpressError ''JWT is invalid'' [])"
    by blast
  from active_passes_iff [of default_options "sample_req (Some (sample_token\<lparr>stale := False\<rparr>))"] c
  have 3: "active default_options (sample_req (Some (sample_token\<lparr>stale := False\<rparr>))) = Next"
    by blast
  from 1 2 3 show ?thesis by simp
qed

text \<open>
  C7 (as amended). \<open>require\<close> itself, which takes no request, returns the error: for a
  non-empty operator outside the list of eight the result is an exception (the one for
  the operator, or the one for an empty key, which is checked first). With a key, and
  with one of the eight operators, without an operator, or with the empty string as
  operator, the result is the middleware; the empty string counts as no operator, and
  the middleware built with it is the one built with the key alone, whatever value was
  passed.
\<close>

theorem require_checks_operator:
  "(s \<noteq> [] \<and> s \<notin> set operators \<longrightarrow>
      require rt opts key (Some s) val =
        Inl (if key = [] then ReferenceError ''key must be defined''
             else JWTExpressError (''Invalid operator: '' @ s) [])) \<and>
   (key \<noteq> [] \<and>
    (operator = None \<or> operator = Some [] \<or> (\<exists>s \<in> set operators. operator = Some s)) \<longrightarrow>
      require rt opts key operator val = Inr (require_mw rt opts key operator val)) \<and>
   (\<forall>val' w rq. require_mw rt opts key (Some []) val w rq =
                  require_mw rt opts key None val' w rq)"
  by (auto simp: require_def require_mw_def)

theorem require_checks_operator_witness:
  "require sample_runtime default_options ''level'' (Some ''=>'') (JNum 3)
     = Inl (JWTExpressError ''Invalid operator: =>'' []) \<and>
   require sample_runtime default_options ''level'' (Some ''>='') (JNum 3)
     = Inr (require_mw sample_runtime default_options ''level'' (Some ''>='') (JNum 3)) \<and>
   require sample_runtime default_options ''level'' None JUndefined
     = Inr (require_mw sample_runtime default_options ''level'' None JUndefined)"
proof -
  have a: "''=>'' \<noteq> [] \<and> ''=>'' \<notin> set operators"
    by (simp add: operators_def)
  have b: "''level'' \<noteq> [] \<and>
    (Some ''>='' = None \<or> Some ''>='' = Some [] \<or> (\<exists>s \<in> set operators. Some ''>='' = Some s))"
    by (simp add: operators_def)
  have c: "''level'' \<noteq> [] \<and>
    ((None :: string option) = None \<or> None = Some [] \<or> (\<exists>s \<in> set operators. None = Some s))"
    by simp
  note t = require_checks_operator [where opts = default_options and key = "''level''"
      and rt = sample_runtime]
  from t [where s = "''=>''" and val = "JNum 3", THEN conjunct1, rule_format, OF a]
  have 1: "require sample_runtime default_options ''level'' (Some ''=>'') (JNum 3)
     = Inl (JWTExpressError ''Invalid operator: =>'' [])"
    by simp
  from t [where operator = "Some ''>=''" and val = "JNum 3", THEN conjunct2, THEN conjunct1,
      rule_format, OF b]
  have 2: "require sample_runtime default_options ''level'' (Some ''>='') (JNum 3)
     = Inr (require_mw sample_runtime default_options ''level'' (Some ''>='') (JNum 3))" .
  from t [where operator = None and val = JUndefined, THEN conjunct2, THEN conjunct1,
      rule_format, OF c]
  have 3: "require sample_runtime default_options ''level'' None JUndefined
     = Inr (require_mw sample_runtime default_options ''level'' None JUndefined)" .
  from 1 2 3 show ?thesis by simp
qed

text \<open>
  C7 as stated fails: the empty string is not one of the eight operators, and \<open>require\<close>
  with it returns a middleware, which compares with \<open>true\<close> by \<open>==\<close> and not with the
  value 3 that was passed.
\<close>

theorem require_empty_operator_counterexample:
  "[] \<notin> set operators \<and>
   require sample_runtime default_options ''level'' (Some []) (JNum 3)
     = Inr (require_mw sample_runtime default_options ''level'' (Some []) (JNum 3)) \<and>
   require_mw sample_runtime default_options ''level'' (Some []) (JNum 3) world0
     (sample_req None)
     = NextErr (JWTExpressError ''JWT is insufficient''
         [(''key'', JStr ''level''), (''data'', JUndefined),
          (''operator'', JStr ''==''), (''value'', JBool True)])"
  by (simp add: operators_def require_def require_mw_def sample_defs sample_req_def
      get_prop_def compare_op_def loose_eq_def nullish_def)

text \<open>
  C8. With only a key, \<open>require\<close> returns a middleware that compares the claim under
  the key with \<open>true\<close> by \<open>==\<close>: it calls \<open>next()\<close> when the comparison holds and
  otherwise passes \<open>JWT is insufficient\<close> with the four properties \<open>key\<close>, \<open>data\<close>,
  \<open>operator\<close> and \<open>value\<close>, the last two being \<open>==\<close> and \<open>true\<close>. The claim read
  is the token's own claim, else the property every object inherits, else \<open>undefined\<close>;
  without a token it is read from an empty object. It passes when the claim is \<open>true\<close>
  and does not when the claim is \<open>false\<close> or \<open>undefined\<close>. The last conjunct says
  which values \<open>==\<close> makes equal to \<open>true\<close>.
\<close>

theorem require_key_only:
  assumes "key \<noteq> []"
  shows "\<exists>g. require rt opts key None val = Inr g \<and>
    (\<forall>w rq.
       g w rq =
         (let data = get_prop rt (case attached rq (reqProperty opts) of
                                    None \<Rightarrow> Map.empty
                                  | Some j \<Rightarrow> heap w (payload j)) key
          in if loose_eq rt data (JBool True) then Next
             else NextErr (JWTExpressError ''JWT is insufficient''
                    [(''key'', JStr key), (''data'', data),
                     (''operator'', JStr ''==''), (''value'', JBool True)])) \<and>
       (attached rq (reqProperty opts) = None \<and> object_prototype rt key = None \<longrightarrow>
          g w rq = NextErr (JWTExpressError ''JWT is insufficient''
                    [(''key'', JStr key), (''data'', JUndefined),
                     (''operator'', JStr ''==''), (''value'', JBool True)])) \<and>
       (\<forall>j. attached rq (reqProperty opts) = Some j \<longrightarrow>
          (heap w (payload j) key = Some (JBool True) \<longrightarrow> g w rq = Next) \<and>
          (heap w (payload j) key = Some (JBool False) \<longrightarrow>
             g w rq = NextErr (JWTExpressError ''JWT is insufficient''
                    [(''key'', JStr key), (''data'', JBool False),
                     (''operator'', JStr ''==''), (''value'', JBool True)])) \<and>
          (heap w (payload j) key = None \<and> object_prototype rt key = None \<longrightarrow>
             g w rq = NextErr (JWTExpressError ''JWT is insufficient''
                    [(''key'', JStr key), (''data'', JUndefined),
                     (''operator'', JStr ''==''), (''value'', JBool True)])))) \<and>
    (\<forall>v. loose_eq rt v (JBool True) \<longleftrightarrow>
       (case v of
          JUndefined \<Rightarrow> False
        | JNull \<Rightarrow> False
        | JBool b \<Rightarrow> b
        | JNum n \<Rightarrow> n = 1
        | JNumber x \<Rightarrow> x = Fin 1
        | JStr s \<Rightarrow> string_to_number rt s = Fin 1
        | JObject r \<Rightarrow> string_to_number rt (to_primitive rt r) = Fin 1))"
proof -
  have le: "loose_eq rt v (JBool True) \<longleftrightarrow>
       (case v of
          JUndefined \<Rightarrow> False
        | JNull \<Rightarrow> False
        | JBool b \<Rightarrow> b
        | JNum n \<Rightarrow> n = 1
        | JNumber x \<Rightarrow> x = Fin 1
        | JStr s \<Rightarrow> string_to_number rt s = Fin 1
        | JObject r \<Rightarrow> string_to_number rt (to_primitive rt r) = Fin 1)" for v
    by (cases v) (auto simp: loose_eq_def nullish_def is_object_def is_str_def num_eq_def)
  show ?thesis
    using assms le
    by (auto simp: require_def require_mw_def compare_op_def get_prop_def Let_def
        split: option.splits)
qed

theorem require_key_only_witness:
  "(\<exists>g. require sample_runtime default_options ''admin'' None JUndefined = Inr g \<and>
     g (admin_world True) (sample_req (Some sample_token)) = Next \<and>
     g (admin_world False) (sample_req (Some sample_token)) =
       NextErr (JWTExpressError ''JWT is insufficient''
                  [(''key'', JStr ''admin''), (''data'', JBool False),
                   (''operator'', JStr ''==''), (''value'', JBool True)]) \<and>
     g world0 (sample_req None) =
       NextErr (JWTExpressError ''JWT is insufficient''
                  [(''key'', JStr ''admin''), (''data'', JUndefined),
                   (''operator'', JStr ''==''), (''value'', JBool True)])) \<and>
   (\<exists>g. require sample_runtime default_options ''constructor'' None JUndefined = Inr g \<and>
     g world0 (sample_req None) =
       NextErr (JWTExpressError ''JWT is insufficient''
                  [(''key'', JStr ''constructor''), (''data'', JObject 0),
                   (''operator'', JStr ''==''), (''value'', JBool True)]))"
proof -
  have p: "reqProperty default_options = ''jwt''"
    by (simp add: sample_defs)
  have np: "object_prototype sample_runtime ''admin'' = None"
    and pc: "object_prototype sample_runtime ''constructor'' = Some (JObject 0)"
    and nn: "string_to_number sample_runtime (to_primitive sample_runtime 0) = NaN"
    by (simp_all add: sample_runtime_def decimal_number_def trim_def is_space_def
        unsigned_num_def is_digit_def)
  have k: "''admin'' \<noteq> []"
    by simp
  from require_key_only [OF k, of sample_runtime default_options JUndefined] obtain g where
    g: "require sample_runtime default_options ''admin'' None JUndefined = Inr g"
    and r: "\<And>w rq. g w rq =
         (let data = get_prop sample_runtime
                       (case attached rq (reqProperty default_options) of
                          None \<Rightarrow> Map.empty
                        | Some j \<Rightarrow> heap w (payload j)) ''admin''
          in if loose_eq sample_runtime data (JBool True) then Next
             else NextErr (JWTExpressError ''JWT is insufficient''
                    [(''key'', JStr ''admin''), (''data'', data),
                     (''operator'', JStr ''==''), (''value'', JBool True)]))"
    and le: "\<And>v. loose_eq sample_runtime v (JBool True) \<longleftrightarrow>
       (case v of
          JUndefined \<Rightarrow> False
        | JNull \<Rightarrow> False
        | JBool b \<Rightarrow> b
        | JNum n \<Rightarrow> n = 1
        | JNumber x \<Rightarrow> x = Fin 1
        | JStr s \<Rightarrow> string_to_number sample_runtime s = Fin 1
        | JObject r \<Rightarrow> string_to_number sample_runtime (to_primitive sample_runtime r) = Fin 1)"
    by blast
  have 1: "g (admin_world True) (sample_req (Some sample_token)) = Next"
    by (simp add: r le p sample_req_def sample_token_def admin_world_def get_prop_def)
  have 2: "g (admin_world False) (sample_req (Some sample_token)) =
       NextErr (JWTExpressError ''JWT is insufficient''
                  [(''key'', JStr ''admin''), (''data'', JBool False),
                   (''operator'', JStr ''==''), (''value'', JBool True)])"
    by (simp add: r le p sample_req_def sample_token_def admin_world_def get_prop_def)
  have 3: "g world0 (sample_req None) =
       NextErr (JWTExpressError ''JWT is insufficient''
                  [(''key'', JStr ''admin''), (''data'', JUndefined),
                   (''operator'', JStr ''==''), (''value'', JBool True)])"
    by (simp add: r le p sample_req_def get_prop_def np)
  have k': "''constructor'' \<noteq> []"
    by simp
  from require_key_only [OF k', of sample_runtime default_options JUndefined] obtain h where
    h: "require sample_runtime default_options ''constructor'' None JUndefined = Inr h"
    and r': "\<And>w rq. h w rq =
         (let data = get_prop sample_runtime
                       (case attached rq (reqProperty default_options) of
                          None \<Rightarrow> Map.empty
                        | Some j \<Rightarrow> heap w (payload j)) ''constructor''
          in if loose_eq sample_runtime data (JBool True) then Next
             else NextErr (JWTExpressError ''JWT is insufficient''
                    [(''key'', JStr ''constructor''), (''data'', data),
                     (''operator'', JStr ''==''), (''value'', JBool True)]))"
    by blast
  have 4: "h world0 (sample_req None) =
       NextErr (JWTExpressError ''JWT is insufficient''
                  [(''key'', JStr ''constructor''), (''data'', JObject 0),
                   (''operator'', JStr ''==''), (''value'', JBool True)])"
    by (simp add: r' le p sample_req_def get_prop_def pc nn)
  from g 1 2 3 h 4 show ?thesis
    by blast
qed

subsection \<open>The entry middleware\<close>

lemma refresh_result:
  "store opts rs (resign cd opts (w1, j1)) =
     (rs\<lparr>cookie_calls := cookie_calls rs @
            (if cookies opts
             then [(cookie opts,
                    c_sign cd (time w1)
                      ((heap w1 (payload j1))(''stales'' \<mapsto> JNum (time w1 + stales opts)))
                      (secret j1) (signOptions opts),
                    cookieOptions opts)]
             else [])\<rparr>,
      w1\<lparr>calls := calls w1 @ [Resign, Sign, Store],
         heap := (heap w1)(payload j1 :=
                   (heap w1 (payload j1))(''stales'' \<mapsto> JNum (time w1 + stales opts)))\<rparr>,
      j1\<lparr>token := c_sign cd (time w1)
                     ((heap w1 (payload j1))(''stales'' \<mapsto> JNum (time w1 + stales opts)))
                     (secret j1) (signOptions opts),
         valid := True, expired := False, stale := False\<rparr>)"
  by (simp add: jwt_defs Let_def)

lemma verify_calls:
  "verify rt cd opts tok (w, j) = Inr (w1, j1) \<Longrightarrow> calls w1 = calls w @ [Verify]"
  by (auto simp: jwt_defs Let_def split: sum.splits option.splits if_splits)

lemma JWT_calls: "JWT sec w = (w1, j1) \<Longrightarrow> calls w1 = calls w"
  by (auto simp: jwt_defs Let_def)

lemma verify_fresh_invalid:
  "verify rt cd opts tok (JWT sec w) = Inr (w1, j1) \<Longrightarrow>
   c_verify cd (time w) (case tok of None \<Rightarrow> [] | Some s \<Rightarrow> s) sec (verifyOptions opts) = Inl e \<Longrightarrow>
   \<not> valid j1"
  by (auto simp: jwt_defs Let_def split: sum.splits option.splits if_splits)

text \<open>
  C6. When reading the token throws, or \<open>verify\<close> does, the middleware ends with that
  exception and has done nothing. Otherwise it verifies the token on a new token object.
  Exactly when the verified token is valid and not stale and the option \<open>refresh\<close> is
  set, it then calls \<open>resign\<close> (which calls \<open>sign\<close>) and \<open>store\<close>, once each and in
  this order: the payload object gets a new stamp, the token object gets the string the
  codec signs for the stamped payload and is valid and not stale, the request holds this
  token, and with cookies in use \<open>res.cookie\<close> is called once, with this string. In
  every other case the request holds the token as verified, and neither the response nor
  the store changes after \<open>verify\<close>. When no token came with the request and the codec
  rejects the empty string, there is no refresh.
\<close>

theorem init_mw_refresh:
  "(\<forall>e. extract_token opts rq = Inl e \<longrightarrow> init_mw rt cd opts secretf rq rs w = Inl e) \<and>
   (\<forall>tok e. extract_token opts rq = Inr tok \<and>
        verify rt cd opts tok (JWT (secretf rq) w) = Inl e \<longrightarrow>
        init_mw rt cd opts secretf rq rs w = Inl e) \<and>
   (\<forall>tok w1 j1.
      extract_token opts rq = Inr tok \<and>
      verify rt cd opts tok (JWT (secretf rq) w) = Inr (w1, j1) \<longrightarrow>
      calls w1 = calls w @ [Verify] \<and>
      (if valid j1 \<and> \<not> stale j1 \<and> refresh opts
       then (let stamped = (heap w1 (payload j1))(''stales'' \<mapsto> JNum (time w1 + stales opts));
                 tk = c_sign cd (time w1) stamped (secret j1) (signOptions opts)
             in init_mw rt cd opts secretf rq rs w =
                  Inr (rq\<lparr>attached := (attached rq)(reqProperty opts \<mapsto>
                             j1\<lparr>token := tk, valid := True, expired := False, stale := False\<rparr>)\<rparr>,
                       rs\<lparr>cookie_calls := cookie_calls rs @
                             (if cookies opts then [(cookie opts, tk, cookieOptions opts)] else [])\<rparr>,
                       w1\<lparr>calls := calls w @ [Verify, Resign, Sign, Store],
                          heap := (heap w1)(payload j1 := stamped)\<rparr>))
       else init_mw rt cd opts secretf rq rs w =
              Inr (rq\<lparr>attached := (attached rq)(reqProperty opts \<mapsto> j1)\<rparr>, rs, w1)) \<and>
      (tok = None \<and> isl (c_verify cd (time w) [] (secretf rq) (verifyOptions opts)) \<longrightarrow>
         init_mw rt cd opts secretf rq rs w =
           Inr (rq\<lparr>attached := (attached rq)(reqProperty opts \<mapsto> j1)\<rparr>, rs, w1)))"
proof (intro conjI allI impI)
  fix e assume "extract_token opts rq = Inl e"
  then show "init_mw rt cd opts secretf rq rs w = Inl e"
    by (simp add: init_mw_def)
next
  fix tok e
  assume "extract_token opts rq = Inr tok \<and> verify rt cd opts tok (JWT (secretf rq) w) = Inl e"
  then show "init_mw rt cd opts secretf rq rs w = Inl e"
    by (simp add: init_mw_def)
next
  fix tok w1 j1
  assume a: "extract_token opts rq = Inr tok \<and>
      verify rt cd opts tok (JWT (secretf rq) w) = Inr (w1, j1)"
  obtain w0 j0 where c: "JWT (secretf rq) w = (w0, j0)"
    by (cases "JWT (secretf rq) w")
  from a c have "verify rt cd opts tok (w0, j0) = Inr (w1, j1)"
    by simp
  from verify_calls [OF this] JWT_calls [OF c]
  show "calls w1 = calls w @ [Verify]"
    by simp
next
  fix tok w1 j1
  assume a: "extract_token opts rq = Inr tok \<and>
      verify rt cd opts tok (JWT (secretf rq) w) = Inr (w1, j1)"
  obtain w0 j0 where c: "JWT (secretf rq) w = (w0, j0)"
    by (cases "JWT (secretf rq) w")
  from a c have "verify rt cd opts tok (w0, j0) = Inr (w1, j1)"
    by simp
  from verify_calls [OF this] JWT_calls [OF c]
  have c1: "calls w1 = calls w @ [Verify]"
    by simp
  show "if valid j1 \<and> \<not> stale j1 \<and> refresh opts
       then (let stamped = (heap w1 (payload j1))(''stales'' \<mapsto> JNum (time w1 + stales opts));
                 tk = c_sign cd (time w1) stamped (secret j1) (signOptions opts)
             in init_mw rt cd opts secretf rq rs w =
                  Inr (rq\<lparr>attached := (attached rq)(reqProperty opts \<mapsto>
                             j1\<lparr>token := tk, valid := True, expired := False, stale := False\<rparr>)\<rparr>,
                       rs\<lparr>cookie_calls := cookie_calls rs @
                             (if cookies opts then [(cookie opts, tk, cookieOptions opts)] else [])\<rparr>,
                       w1\<lparr>calls := calls w @ [Verify, Resign, Sign, Store],
                          heap := (heap w1)(payload j1 := stamped)\<rparr>))
       else init_mw rt cd opts secretf rq rs w =
              Inr (rq\<lparr>attached := (attached rq)(reqProperty opts \<mapsto> j1)\<rparr>, rs, w1)"
    using a c1 by (simp add: init_mw_def refresh_result Let_def)
next
  fix tok w1 j1
  assume a: "extract_token opts rq = Inr tok \<and>
      verify rt cd opts tok (JWT (secretf rq) w) = Inr (w1, j1)"
    and b: "tok = None \<and> isl (c_verify cd (time w) [] (secretf rq) (verifyOptions opts))"
  from b obtain e where "c_verify cd (time w) [] (secretf rq) (verifyOptions opts) = Inl e"
    by (cases "c_verify cd (time w) [] (secretf rq) (verifyOptions opts)") simp_all
  with verify_fresh_invalid [of rt cd opts tok "secretf rq" w w1 j1 e] a b have "\<not> valid j1"
    by simp
  with a show "init_mw rt cd opts secretf rq rs w =
           Inr (rq\<lparr>attached := (attached rq)(reqProperty opts \<mapsto> j1)\<rparr>, rs, w1)"
    by (simp add: init_mw_def)
qed

theorem init_mw_refresh_witness:
  "(\<exists>rq' rs' w' j. init_mw sample_runtime sample_codec default_options (\<lambda>r. ''k'')
                      (cookie_req ''good'') res0 world0 = Inr (rq', rs', w') \<and>
      calls w' = [Verify, Resign, Sign, Store] \<and>
      cookie_calls rs' = [(''jwt-express'', ''good'', [(''httpOnly'', JBool True)])] \<and>
      attached rq' ''jwt'' = Some j \<and> token j = ''good'' \<and> valid j \<and> \<not> stale j \<and>
      heap w' (payload j) ''stales'' = Some (JNum 900100)) \<and>
   (\<exists>rq' rs' w' j. init_mw sample_runtime sample_codec default_options (\<lambda>r. ''k'')
                      (cookie_req ''bad'') res0 world0 = Inr (rq', rs', w') \<and>
      calls w' = [Verify] \<and> cookie_calls rs' = [] \<and>
      attached rq' ''jwt'' = Some j \<and> token j = ''bad'' \<and> \<not> valid j)"
proof -
  let ?f = "\<lambda>r::req. ''k''"
  have o: "cookies default_options" "refresh default_options"
    "cookie default_options = ''jwt-express''" "reqProperty default_options = ''jwt''"
    "cookieOptions default_options = [(''httpOnly'', JBool True)]"
    "stales default_options = 900000" "signOptions default_options = []"
    by (simp_all add: sample_defs)
  have z: "calls world0 = []" "cookie_calls res0 = []"
    by (simp_all add: world0_def res0_def)
  obtain w1 j1 where
    v1: "verify sample_runtime sample_codec default_options (Some ''good'') (JWT ''k'' world0)
           = Inr (w1, j1)"
    by (simp add: jwt_defs sample_defs Let_def get_prop_def js_le_num)
  then have f1: "valid j1" "\<not> stale j1" "time w1 = 100"
    by (auto simp: jwt_defs sample_defs Let_def get_prop_def js_le_num)
  obtain w2 j2 where
    v2: "verify sample_runtime sample_codec default_options (Some ''bad'') (JWT ''k'' world0)
           = Inr (w2, j2)"
    by (simp add: jwt_defs sample_defs Let_def get_prop_def js_le_num)
  then have f2: "\<not> valid j2" "token j2 = ''bad''"
    by (auto simp: jwt_defs sample_defs Let_def get_prop_def js_le_num)
  have e1: "extract_token default_options (cookie_req ''good'') = Inr (Some ''good'') \<and>
        verify sample_runtime sample_codec default_options (Some ''good'')
          (JWT (?f (cookie_req ''good'')) world0) = Inr (w1, j1)"
    using v1 by (simp add: extract_token_def o cookie_req_def)
  have e2: "extract_token default_options (cookie_req ''bad'') = Inr (Some ''bad'') \<and>
        verify sample_runtime sample_codec default_options (Some ''bad'')
          (JWT (?f (cookie_req ''bad'')) world0) = Inr (w2, j2)"
    using v2 by (simp add: extract_token_def o cookie_req_def)
  note t1 = init_mw_refresh [where opts = default_options and rq = "cookie_req ''good''"
      and cd = sample_codec and secretf = ?f and rs = res0 and w = world0
      and rt = sample_runtime, THEN conjunct2, THEN conjunct2, rule_format, OF e1]
  note t2 = init_mw_refresh [where opts = default_options and rq = "cookie_req ''bad''"
      and cd = sample_codec and secretf = ?f and rs = res0 and w = world0
      and rt = sample_runtime, THEN conjunct2, THEN conjunct2, rule_format, OF e2]
  from t1 [THEN conjunct2, THEN conjunct1]
  have 1: "\<exists>rq' rs' w' j. init_mw sample_runtime sample_codec default_options ?f
                      (cookie_req ''good'') res0 world0 = Inr (rq', rs', w') \<and>
      calls w' = [Verify, Resign, Sign, Store] \<and>
      cookie_calls rs' = [(''jwt-express'', ''good'', [(''httpOnly'', JBool True)])] \<and>
      attached rq' ''jwt'' = Some j \<and> token j = ''good'' \<and> valid j \<and> \<not> stale j \<and>
      heap w' (payload j) ''stales'' = Some (JNum 900100)"
    by (simp add: f1 o z Let_def sample_codec_def)
  from t2 [THEN conjunct2, THEN conjunct1]
  have 2: "\<exists>rq' rs' w' j. init_mw sample_runtime sample_codec default_options ?f
                      (cookie_req ''bad'') res0 world0 = Inr (rq', rs', w') \<and>
      calls w' = [Verify] \<and> cookie_calls rs' = [] \<and>
      attached rq' ''jwt'' = Some j \<and> token j = ''bad'' \<and> \<not> valid j"
    using verify_calls [OF v2 [unfolded JWT_def alloc_def Let_def, simplified]]
    by (simp add: f2 o z)
  from 1 2 show ?thesis by (rule conjI)
qed

subsection \<open>Serialisation\<close>

text \<open>
  C9. The object that \<open>toJSON\<close> returns has the keys \<open>token\<close>, \<open>payload\<close>, \<open>valid\<close>,
  \<open>expired\<close> and \<open>stale\<close> and no other, with the values of these fields. It is a
  function of these five fields alone: two tokens that agree on them give the same
  object, so two calls on an unchanged token do, and the secret does not show in it. The
  options are no argument of \<open>toJSON\<close>.
\<close>

theorem toJSON_public_view:
  "map fst (toJSON j) = [''token'', ''payload'', ''valid'', ''expired'', ''stale''] \<and>
   map snd (toJSON j) =
     [FString (token j), FObject (payload j), FBool (valid j), FBool (expired j), FBool (stale j)] \<and>
   (\<forall>j'. token j' = token j \<and> payload j' = payload j \<and> valid j' = valid j \<and>
         expired j' = expired j \<and> stale j' = stale j \<longrightarrow> toJSON j' = toJSON j) \<and>
   (\<forall>s. toJSON (j\<lparr>secret := s\<rparr>) = toJSON j)"
proof -
  have "toJSON j' = toJSON j"
    if "token j' = token j \<and> payload j' = payload j \<and> valid j' = valid j \<and>
        expired j' = expired j \<and> stale j' = stale j" for j'
    using that unfolding toJSON_def by (elim conjE) (simp only:)
  moreover have "map fst (toJSON j) = [''token'', ''payload'', ''valid'', ''expired'', ''stale'']"
    by (simp add: toJSON_def)
  moreover have "map snd (toJSON j) =
     [FString (token j), FObject (payload j), FBool (valid j), FBool (expired j), FBool (stale j)]"
    by (simp add: toJSON_def)
  moreover have "toJSON (j\<lparr>secret := s\<rparr>) = toJSON j" for s
    by (simp add: toJSON_def)
  ultimately show ?thesis
    by blast
qed

theorem toJSON_public_view_witness:
  "toJSON (sample_token\<lparr>secret := ''other''\<rparr>) = toJSON sample_token \<and>
   map fst (toJSON sample_token) = [''token'', ''payload'', ''valid'', ''expired'', ''stale''] \<and>
   map snd (toJSON sample_token) =
     [FString ''good'', FObject 0, FBool True, FBool False, FBool True]"
proof -
  note t = toJSON_public_view [of sample_token]
  have 1: "toJSON (sample_token\<lparr>secret := ''other''\<rparr>) = toJSON sample_token"
    using t [THEN conjunct2, THEN conjunct2, THEN conjunct2] by (rule spec)
  have 2: "map fst (toJSON sample_token) = [''token'', ''payload'', ''valid'', ''expired'', ''stale'']"
    using t [THEN conjunct1] .
  have 3: "map snd (toJSON sample_token) =
     [FString ''good'', FObject 0, FBool True, FBool False, FBool True]"
    using t [THEN conjunct2, THEN conjunct1] by (simp add: sample_token_def)
  from 1 2 3 show ?thesis
    by (intro conjI)
qed

subsection \<open>Aliasing of the payload\<close>

text \<open>
  C10. \<open>sign\<close> writes the stamp into the caller's object at \<open>p\<close> and leaves every
  other object as it was; the token's payload is then \<open>p\<close> itself. So a later write to
  the object at \<open>p\<close> is what the token's payload reads, and \<open>resign\<close> writes a new
  stamp into the caller's object.
\<close>

theorem sign_aliases_payload:
  assumes "sign cd opts p (w, j) = (w1, j1)"
  shows "payload j1 = p \<and>
    heap w1 p = (heap w p)(''stales'' \<mapsto> JNum (time w + stales opts)) \<and>
    (\<forall>a. a \<noteq> p \<longrightarrow> heap w1 a = heap w a) \<and>
    (\<forall>ob. heap (w1\<lparr>heap := (heap w1)(p := ob)\<rparr>) (payload j1) = ob) \<and>
    (\<forall>w2 w3 j3. resign cd opts (w2, j1) = (w3, j3) \<longrightarrow>
        payload j3 = p \<and>
        heap w3 p = (heap w2 p)(''stales'' \<mapsto> JNum (time w2 + stales opts)))"
  using assms
  by (auto simp: sign_def resign_def log_call_def Let_def)

theorem sign_aliases_payload_witness:
  "case sign sample_codec default_options 0 (JWT ''k'' world0) of (w1, j1) \<Rightarrow>
     payload j1 = 0 \<and> heap world0 0 = Map.empty \<and>
     heap w1 0 = [''stales'' \<mapsto> JNum 900100]"
proof -
  define s0 where "s0 = JWT ''k'' world0"
  define s where "s = sign sample_codec default_options 0 s0"
  have e: "sign sample_codec default_options 0 (fst s0, snd s0) = (fst s, snd s)"
    by (simp add: s_def)
  have h: "heap (fst s0) 0 = Map.empty" "time (fst s0) = 100" "stales default_options = 900000"
    "heap world0 0 = Map.empty"
    by (simp_all add: s0_def jwt_defs sample_defs)
  from sign_aliases_payload [OF e] h
  have "payload (snd s) = 0 \<and> heap (fst s) 0 = [''stales'' \<mapsto> JNum 900100]"
    by simp
  with h show ?thesis
    by (simp add: s_def [symmetric] s0_def [symmetric] case_prod_unfold)
qed

end
